theory Spec2Isabelle
  imports Main "HOL-Library.AList"
begin

section \<open>JavaScript strings and values\<close>

text \<open>
  A JavaScript string is modelled as a \<^typ>\<open>string\<close>, one \<^typ>\<open>char\<close> per code unit.
  A string argument that is \<^verbatim>\<open>null\<close> or \<^verbatim>\<open>undefined\<close> at run time takes the same
  branch as the empty string at every guard of the form \<^verbatim>\<open>!s\<close> modelled below, so
  such an argument is represented by \<open>[]\<close>.
\<close>

fun index_of :: "'a \<Rightarrow> 'a list \<Rightarrow> nat option" where
  "index_of c [] = None"
| "index_of c (x # xs) = (if x = c then Some 0 else map_option Suc (index_of c xs))"

definition indexOf :: "string \<Rightarrow> char \<Rightarrow> nat \<Rightarrow> nat option" where
  \<comment> \<open>\<^verbatim>\<open>s.indexOf(c, from)\<close>; \<open>None\<close> is the result \<^verbatim>\<open>-1\<close>.\<close>
  "indexOf s c from = map_option (\<lambda>i. i + from) (index_of c (drop from s))"

definition substr :: "string \<Rightarrow> nat \<Rightarrow> nat option \<Rightarrow> string" where
  \<comment> \<open>\<^verbatim>\<open>s.substr(start, len)\<close> for non-negative arguments; \<open>None\<close> is an omitted length.\<close>
  "substr s start len = (case len of None \<Rightarrow> drop start s | Some n \<Rightarrow> take n (drop start s))"

fun split_on :: "char \<Rightarrow> string \<Rightarrow> string list" where
  \<comment> \<open>\<^verbatim>\<open>s.split(c)\<close> for a one-character separator: never the empty list.\<close>
  "split_on c [] = [[]]"
| "split_on c (x # xs) =
     (if x = c then [] # split_on c xs
      else case split_on c xs of
        [] \<Rightarrow> [[x]]
      | p # ps \<Rightarrow> (x # p) # ps)"

definition is_white_space :: "char \<Rightarrow> bool" where
  \<comment> \<open>The white space and line terminator code units below 256.\<close>
  "is_white_space c \<longleftrightarrow>
     c = CHR 0x09 \<or> c = CHR 0x0A \<or> c = CHR 0x0B \<or> c = CHR 0x0C \<or> c = CHR 0x0D \<or>
     c = CHR 0x20 \<or> c = CHR 0xA0"

definition is_digit :: "char \<Rightarrow> bool" where
  "is_digit c \<longleftrightarrow> 48 \<le> (of_char c :: nat) \<and> (of_char c :: nat) \<le> 57"

definition digit_value :: "char \<Rightarrow> int" where
  "digit_value c = int (of_char c) - 48"

definition digits_value :: "string \<Rightarrow> int" where
  "digits_value ds = foldl (\<lambda>acc c. acc * 10 + digit_value c) 0 ds"

fun bit_length :: "nat \<Rightarrow> nat" where
  "bit_length n = (if n = 0 then 0 else Suc (bit_length (n div 2)))"

declare bit_length.simps [simp del]

definition to_double :: "int \<Rightarrow> int" where
  \<comment> \<open>The double nearest to a non-negative integer, ties to the even significand of 53
      bits; \<open>2 ^ 1024\<close>, which is above every finite double, stands for \<^verbatim>\<open>Infinity\<close>.
      An integer below \<open>2 ^ 53\<close> is a double as it is.\<close>
  "to_double n =
     (if n < 2 ^ 53 then n
      else
        (let sh = bit_length (nat n) - 53;
             q = n div 2 ^ sh;
             r = n mod 2 ^ sh;
             q' = (if 2 * r > 2 ^ sh \<or> (2 * r = 2 ^ sh \<and> odd q) then q + 1 else q)
         in min (q' * 2 ^ sh) (2 ^ 1024)))"

definition parseInt :: "string \<Rightarrow> int option" where
  \<comment> \<open>\<^verbatim>\<open>parseInt(s, 10)\<close>: leading white space is skipped, an optional sign is read,
      then the longest run of decimal digits; \<open>None\<close> is \<^verbatim>\<open>NaN\<close>. The result is a
      number of JavaScript, a double: the number the digits denote, rounded by
      \<open>to_double\<close>, with \<open>2 ^ 1024\<close> and its negation for the two infinities (the
      order of the integers is then the order of the doubles; \<^verbatim>\<open>-0\<close> is \<open>0\<close>, which
      no comparison tells apart). For a run of more than 20 significant digits
      ECMAScript lets an engine approximate the digits after the twentieth; the model
      rounds the exact number.\<close>
  "parseInt s =
     (let t = dropWhile is_white_space s;
          neg = (t \<noteq> [] \<and> hd t = CHR ''-'');
          u = (if t \<noteq> [] \<and> (hd t = CHR ''-'' \<or> hd t = CHR ''+'') then tl t else t);
          z = takeWhile is_digit u
      in if z = [] then None
         else Some (if neg then - to_double (digits_value z) else to_double (digits_value z)))"

datatype 'a jsval =
    JUndefined
  | JNull
  | JBool bool
  | JNum int
  | JStr string
  | JObj 'a
  | JArr "'a jsval list"
  | JCyclic

text \<open>
  \<open>JCyclic\<close> is an object that refers to itself and has no other property: a value
  that \<^verbatim>\<open>JSON.stringify\<close> throws a \<^verbatim>\<open>TypeError\<close> on.
\<close>

fun truthy :: "'a jsval \<Rightarrow> bool" where
  "truthy JUndefined = False"
| "truthy JNull = False"
| "truthy (JBool b) = b"
| "truthy (JNum n) = (n \<noteq> 0)"
| "truthy (JStr s) = (s \<noteq> [])"
| "truthy (JObj x) = True"
| "truthy (JArr xs) = True"
| "truthy JCyclic = True"

fun serializable :: "'a jsval \<Rightarrow> bool" where
  \<comment> \<open>\<^verbatim>\<open>JSON.stringify(v)\<close> returns.\<close>
  "serializable JCyclic = False"
| "serializable (JArr xs) = list_all serializable xs"
| "serializable JUndefined = True"
| "serializable JNull = True"
| "serializable (JBool b) = True"
| "serializable (JNum n) = True"
| "serializable (JStr s) = True"
| "serializable (JObj x) = True"

fun json_copy :: "bool \<Rightarrow> 'a jsval \<Rightarrow> 'a jsval" where
  \<comment> \<open>\<^verbatim>\<open>JSON.parse(JSON.stringify(v))\<close> on a value that \<^verbatim>\<open>JSON.stringify\<close> accepts. The
      flag says that the value is an array element, where \<^verbatim>\<open>undefined\<close> is written as
      \<^verbatim>\<open>null\<close>; as a property value it is omitted, and reads back as \<^verbatim>\<open>undefined\<close>.\<close>
  "json_copy in_array JUndefined = (if in_array then JNull else JUndefined)"
| "json_copy in_array (JArr xs) = JArr (map (json_copy True) xs)"
| "json_copy in_array JNull = JNull"
| "json_copy in_array (JBool b) = JBool b"
| "json_copy in_array (JNum n) = JNum n"
| "json_copy in_array (JStr s) = JStr s"
| "json_copy in_array (JObj x) = JObj x"
| "json_copy in_array JCyclic = JCyclic"

fun replace_first :: "string \<Rightarrow> string \<Rightarrow> string \<Rightarrow> string" where
  \<comment> \<open>\<^verbatim>\<open>s.replace(pat, rep)\<close> with a string pattern: the first occurrence only.\<close>
  "replace_first pat rep [] = (if pat = [] then rep else [])"
| "replace_first pat rep (x # xs) =
     (if take (length pat) (x # xs) = pat then rep @ drop (length pat) (x # xs)
      else x # replace_first pat rep xs)"

definition truthy_str :: "string option \<Rightarrow> bool" where
  \<comment> \<open>A string-valued property: absent and empty are falsy.\<close>
  "truthy_str s \<longleftrightarrow> (case s of None \<Rightarrow> False | Some v \<Rightarrow> v \<noteq> [])"

datatype 'a outcome = Throws | Returns 'a

definition catch :: "'a outcome \<Rightarrow> 'a outcome \<Rightarrow> 'a outcome" where
  \<comment> \<open>\<^verbatim>\<open>try { body } catch { handler }\<close>\<close>
  "catch body handler = (case body of Throws \<Rightarrow> handler | Returns v \<Rightarrow> Returns v)"

section \<open>Data model\<close>

text \<open>
  The interfaces \<^verbatim>\<open>IIOSDeviceTarget\<close> and \<^verbatim>\<open>ITarget\<close> with the properties the adapters
  read and write. An absent property is \<open>None\<close>.
\<close>

record device =
  deviceId :: "string option"
  deviceOSVersion :: "string option"
  device_url :: "string option"
  version :: "string option"

type_synonym meta = "device jsval"

record itarget =
  id_t :: "string option"
  webSocketDebuggerUrl :: "string option"
  adapterType :: "string option"
  type_t :: "string option"
  metadata :: meta
  devtoolsFrontendUrl :: "string option"
  description :: "string option"
  faviconUrl :: "string option"
  title :: "string option"
  url_t :: "string option"

text \<open>
  Modelled from the spec: the class \<^verbatim>\<open>Target\<close> (the session bridge) is not part of the
  sources at hand. A session holds the target id and the descriptor it was constructed
  from, the client socket bound to it (\<^verbatim>\<open>connect(realEndpoint, clientSocket)\<close>, rebound by
  \<^verbatim>\<open>rebindClient(newClientSocket)\<close>) and the real endpoint its backend connection was
  opened to. Sessions are objects with identity: they live in a heap and are referred to
  by their address, the index in the heap.
\<close>

type_synonym socket = nat

record session =
  session_id :: string
  data :: itarget
  wsTools :: socket
  backend :: "string option"

type_synonym heap = "session list"

definition new_Target :: "string \<Rightarrow> itarget \<Rightarrow> socket \<Rightarrow> heap \<Rightarrow> nat \<times> heap" where
  \<comment> \<open>\<^verbatim>\<open>new Target(targetId, targetData)\<close> followed by
      \<^verbatim>\<open>target.connectTo(targetData.webSocketDebuggerUrl, wsFrom)\<close>\<close>
  "new_Target targetId targetData ws h =
     (length h,
      h @ [\<lparr>session_id = targetId, data = targetData, wsTools = ws,
             backend = webSocketDebuggerUrl targetData\<rparr>])"

definition updateClient :: "nat \<Rightarrow> socket \<Rightarrow> heap \<Rightarrow> heap" where
  "updateClient target ws h =
     (if target < length h then h[target := (h ! target)\<lparr>wsTools := ws\<rparr>] else h)"

definition lookup_session :: "heap \<Rightarrow> nat \<Rightarrow> session option" where
  "lookup_session h target = (if target < length h then Some (h ! target) else None)"

datatype early_event = ErrorEvent | CloseEvent | ExitEvent

datatype spawn_error = AlreadyStarted | NoPath | SpawnFailed | Early early_event

datatype ('e, 'a) promise = Rejected 'e | Resolved 'a

type_synonym process = nat

record adapter =
  adapter_id :: string
  adapter_type :: string
  proxyUrl :: string
  port :: int
  proxyExePath :: "string option"
  proxyExeArgs :: "string list option"
  proxyProc :: "process option"
  targetMap :: "string \<rightharpoonup> nat"
  targetIdToTargetDataMap :: "string \<rightharpoonup> itarget"

section \<open>Backend adapter\<close>

text \<open>
  The operations of the class \<^verbatim>\<open>Adapter\<close>, on the adapter's state (and the heap of
  sessions, where sessions are made or changed). The calls of the logger and the events
  an adapter emits change neither a result nor a registry, and are left out (but for
  the errors that \<^verbatim>\<open>connectTo\<close> of the device-discovery collection logs, below). What the
  world outside decides (the HTTP reply, the fate of a spawned process, a collaborator
  that throws) is an argument of the operation.
\<close>

definition adapterType_of :: "string \<Rightarrow> string" where
  "adapterType_of i =
     (case indexOf i (CHR ''/'') 1 of
        Some index \<Rightarrow> ''_'' @ substr i 1 (Some (index - 1))
      | None \<Rightarrow> replace_first ''/'' ''_'' i)"

definition new_Adapter ::
  "string \<Rightarrow> string \<Rightarrow> int option \<Rightarrow> string option \<Rightarrow> string list option \<Rightarrow> adapter" where
  \<comment> \<open>The constructor, with the options \<^verbatim>\<open>port\<close>, \<^verbatim>\<open>proxyExePath\<close>, \<^verbatim>\<open>proxyExeArgs\<close>.\<close>
  "new_Adapter i socket_url port_opt exe args =
     \<lparr>adapter_id = i,
      adapter_type = adapterType_of i,
      proxyUrl = socket_url,
      port = (case port_opt of None \<Rightarrow> 9222 | Some p \<Rightarrow> if p = 0 then 9222 else p),
      proxyExePath = exe,
      proxyExeArgs = args,
      proxyProc = None,
      targetMap = Map.empty,
      targetIdToTargetDataMap = Map.empty\<rparr>"

text \<open>
  What the operating system does with \<^verbatim>\<open>spawn(path, args)\<close>: the call throws, or it
  returns a process handle, and within the grace window of 200 ms the process reports an
  error, a close or an exit (the first such event counts), or nothing.
\<close>

datatype spawn_result = SpawnThrows | Spawned process "early_event option"

definition spawnProcess ::
  "string option \<Rightarrow> string list option \<Rightarrow> spawn_result \<Rightarrow> ('z adapter_scheme) \<Rightarrow>
     (spawn_error, process) promise \<times> ('z adapter_scheme)" where
  "spawnProcess path args os a =
     (if proxyProc a \<noteq> None then (Rejected AlreadyStarted, a)
      else if \<not> truthy_str path then (Rejected NoPath, a)
      else case os of
        SpawnThrows \<Rightarrow> (Rejected SpawnFailed, a)
      | Spawned p early \<Rightarrow>
          (case early of
             Some e \<Rightarrow> (Rejected (Early e), a\<lparr>proxyProc := Some p\<rparr>)
           | None \<Rightarrow> (Resolved p, a\<lparr>proxyProc := Some p\<rparr>)))"

datatype started = Skipped | Started process

definition start ::
  "spawn_result \<Rightarrow> ('z adapter_scheme) \<Rightarrow> (spawn_error, started) promise \<times> ('z adapter_scheme)" where
  "start os a =
     (if \<not> truthy_str (proxyExePath a) then (Resolved Skipped, a)
      else case spawnProcess (proxyExePath a) (proxyExeArgs a) os a of
        (Rejected e, a') \<Rightarrow> (Rejected e, a')
      | (Resolved p, a') \<Rightarrow> (Resolved (Started p), a'))"

definition stop :: "bool \<Rightarrow> ('z adapter_scheme) \<Rightarrow> ('z adapter_scheme)" where
  \<comment> \<open>The flag says that \<^verbatim>\<open>kill\<close> throws: the handle is then not cleared.\<close>
  "stop kill_throws a =
     (case proxyProc a of
        Some p \<Rightarrow> if kill_throws then a else a\<lparr>proxyProc := None\<rparr>
      | None \<Rightarrow> a)"

definition safeDeepCopy :: "itarget \<Rightarrow> itarget" where
  \<comment> \<open>When \<^verbatim>\<open>JSON.stringify\<close> throws, the \<^verbatim>\<open>catch\<close> block returns the object itself.\<close>
  "safeDeepCopy t =
     (if serializable (metadata t) then t\<lparr>metadata := json_copy False (metadata t)\<rparr> else t)"

definition frontend_prefix :: string where
  "frontend_prefix =
     ''https://chrome-devtools-frontend.appspot.com/serve_file/'' @
     ''@fcea73228632975e052eb90fcf6cd1752d3b42b4/inspector.html'' @
     ''?experiments=true&remoteFrontend=screencast&ws=''"

definition or_else :: "string option \<Rightarrow> string \<Rightarrow> string" where
  \<comment> \<open>\<^verbatim>\<open>s || d\<close> on a string-valued property\<close>
  "or_else s d = (case s of None \<Rightarrow> d | Some v \<Rightarrow> if v = [] then d else v)"

definition minimal_target :: "itarget option \<Rightarrow> meta \<Rightarrow> ('z adapter_scheme) \<Rightarrow> itarget" where
  \<comment> \<open>The descriptor \<^verbatim>\<open>setTargetInfo\<close> returns from its \<^verbatim>\<open>catch\<close> block.\<close>
  "minimal_target t md a =
     \<lparr>id_t = Some (or_else (case t of None \<Rightarrow> None | Some v \<Rightarrow> id_t v) ''unknown''),
      webSocketDebuggerUrl = Some (proxyUrl a @ adapter_id a @ ''/unknown''),
      adapterType = Some (adapter_type a),
      type_t = Some ''page'',
      metadata = md,
      devtoolsFrontendUrl = Some [],
      description = Some (or_else (case t of None \<Rightarrow> None | Some v \<Rightarrow> description v) []),
      faviconUrl = Some (or_else (case t of None \<Rightarrow> None | Some v \<Rightarrow> faviconUrl v) []),
      title = Some (or_else (case t of None \<Rightarrow> None | Some v \<Rightarrow> title v) ''Unknown Target''),
      url_t = Some (or_else (case t of None \<Rightarrow> None | Some v \<Rightarrow> url_t v) [])\<rparr>"

definition setTargetInfo ::
  "itarget option \<Rightarrow> meta \<Rightarrow> ('z adapter_scheme) \<Rightarrow> itarget \<times> ('z adapter_scheme)" where
  "setTargetInfo t md a =
     (case t of
        None \<Rightarrow> (minimal_target t md a, a)
      | Some t0 \<Rightarrow>
          (let i = (if truthy_str (id_t t0) then id_t t0 else webSocketDebuggerUrl t0)
           in case i of
             None \<Rightarrow> (minimal_target t md a, a)
           | Some tid \<Rightarrow>
               if tid = [] then (minimal_target t md a, a)
               else
                 (let t1 = t0\<lparr>id_t := Some tid,
                              adapterType := Some (adapter_type a),
                              type_t := Some (or_else (type_t t0) ''page''),
                              metadata := md\<rparr>;
                      targetData = safeDeepCopy t1;
                      a' = a\<lparr>targetIdToTargetDataMap :=
                                (targetIdToTargetDataMap a)(tid \<mapsto> targetData)\<rparr>;
                      wsUrl = replace_first ''ws://'' [] (proxyUrl a) @ adapter_id a @ ''/'' @ tid
                  in (t1\<lparr>webSocketDebuggerUrl := Some (proxyUrl a @ adapter_id a @ ''/'' @ tid),
                          devtoolsFrontendUrl := Some (frontend_prefix @ wsUrl)\<rparr>,
                      a'))))"

text \<open>
  The outcome of the HTTP request of a discovery, from outside the program: the call to
  \<^verbatim>\<open>request\<close> throws, or it never calls back (the 10 s timer resolves the promise), or
  it calls back with an error flag, a response (its status code) and a body. The flag of
  \<open>CalledBack\<close> says that the callback ran only after the 10 s timer.
\<close>

record http_reply =
  error :: bool
  response :: "nat option"
  body :: "string option"

datatype http_result = RequestThrows | NoCallback | CalledBack bool http_reply

text \<open>
  \<^verbatim>\<open>JSON.parse\<close> is a parameter of the model: \<open>None\<close> when it throws, otherwise the
  parsed value, which is an array of elements or something else. An element is \<open>None\<close>
  when it is \<^verbatim>\<open>null\<close> or a primitive (no property \<^verbatim>\<open>id\<close> or \<^verbatim>\<open>webSocketDebuggerUrl\<close>).
\<close>

datatype 'a parsed = NotArray | Array "'a list"

type_synonym 'a json_parse = "string \<Rightarrow> 'a parsed option"

fun forEach_target ::
  "meta \<Rightarrow> itarget option list \<Rightarrow> itarget list \<times> ('z adapter_scheme) \<Rightarrow>
     itarget list \<times> ('z adapter_scheme)" where
  "forEach_target md [] (targets, a) = (targets, a)"
| "forEach_target md (t # ts) (targets, a) =
     (case t of
        None \<Rightarrow> forEach_target md ts (targets, a)
      | Some t0 \<Rightarrow>
          if truthy_str (id_t t0) \<or> truthy_str (webSocketDebuggerUrl t0)
          then (case setTargetInfo t md a of
                  (r, a') \<Rightarrow> forEach_target md ts (targets @ [r], a'))
          else forEach_target md ts (targets, a))"

definition on_response ::
  "itarget option json_parse \<Rightarrow> meta \<Rightarrow> http_reply \<Rightarrow> ('z adapter_scheme) \<Rightarrow>
     itarget list \<times> ('z adapter_scheme)" where
  \<comment> \<open>The callback given to \<^verbatim>\<open>request\<close>: the list it resolves the promise with.\<close>
  "on_response parse md r a =
     (if error r then ([], a)
      else case response r of
        None \<Rightarrow> ([], a)
      | Some statusCode \<Rightarrow>
          if statusCode \<noteq> 200 then ([], a)
          else if \<not> truthy_str (body r) then ([], a)
          else (case parse (or_else (body r) []) of
                  None \<Rightarrow> ([], a)
                | Some NotArray \<Rightarrow> ([], a)
                | Some (Array rawTargets) \<Rightarrow> forEach_target md rawTargets ([], a)))"

datatype rejection = StringifyTypeError

definition getTargets ::
  "itarget option json_parse \<Rightarrow> http_result \<Rightarrow> meta \<Rightarrow> ('z adapter_scheme) \<Rightarrow>
     (rejection, itarget list) promise \<times> ('z adapter_scheme)" where
  \<comment> \<open>The first statement of the \<^verbatim>\<open>async\<close> body is the call of \<^verbatim>\<open>debug\<close>, whose argument
      holds \<^verbatim>\<open>JSON.stringify(metadata)\<close>: it is evaluated before the promise is
      constructed and outside every \<^verbatim>\<open>try\<close>, so when it throws, the promise that the
      \<^verbatim>\<open>async\<close> function returns rejects and no request is made.\<close>
  "getTargets parse net md a =
     (if \<not> serializable md then (Rejected StringifyTypeError, a)
      else case net of
        RequestThrows \<Rightarrow> (Resolved [], a)
      | NoCallback \<Rightarrow> (Resolved [], a)
      | CalledBack late r \<Rightarrow>
          (case on_response parse md r a of
             (targets, a') \<Rightarrow> (Resolved (if late then [] else targets), a')))"

definition connectTo ::
  "bool \<Rightarrow> string \<Rightarrow> socket option \<Rightarrow> ('z adapter_scheme) \<times> heap \<Rightarrow>
     nat option \<times> ('z adapter_scheme) \<times> heap" where
  \<comment> \<open>The flag says that constructing and connecting the new \<^verbatim>\<open>Target\<close> throws.\<close>
  "connectTo construction_throws targetId wsFrom s =
     (case s of (a, h) \<Rightarrow>
        if targetId = [] then (None, a, h)
        else case wsFrom of
          None \<Rightarrow> (None, a, h)
        | Some ws \<Rightarrow>
            if targetIdToTargetDataMap a targetId = None then (None, a, h)
            else case targetMap a targetId of
              Some existingTarget \<Rightarrow> (Some existingTarget, a, updateClient existingTarget ws h)
            | None \<Rightarrow>
                (case targetIdToTargetDataMap a targetId of
                   None \<Rightarrow> (None, a, h)
                 | Some targetData \<Rightarrow>
                     if construction_throws then (None, a, h)
                     else case new_Target targetId targetData ws h of
                       (target, h') \<Rightarrow>
                         (Some target, a\<lparr>targetMap := (targetMap a)(targetId \<mapsto> target)\<rparr>, h')))"

section \<open>Adapter collection\<close>

text \<open>
  The registry \<^verbatim>\<open>_adapters\<close> is a \<^verbatim>\<open>Map\<close>: an association list in insertion order,
  written only by \<^const>\<open>AList.update\<close>, which replaces the value of a key in place and
  appends a new key. A child is \<open>None\<close> when the entry holds no adapter (the case the
  guards \<^verbatim>\<open>!adapter || typeof adapter.getTargets !== 'function'\<close> test). The child class is
  a type parameter, and the child's method is a parameter of each operation, as the
  call is dispatched on the child.
\<close>

record 'c collection = adapter +
  adapters :: "(string \<times> 'c option) list"

definition new_AdapterCollection ::
  "string \<Rightarrow> string \<Rightarrow> int option \<Rightarrow> string option \<Rightarrow> string list option \<Rightarrow> 'c collection" where
  "new_AdapterCollection i socket_url port_opt exe args =
     \<lparr>adapter_id = i,
      adapter_type = adapterType_of i,
      proxyUrl = socket_url,
      port = (case port_opt of None \<Rightarrow> 9222 | Some p \<Rightarrow> if p = 0 then 9222 else p),
      proxyExePath = exe,
      proxyExeArgs = args,
      proxyProc = None,
      targetMap = Map.empty,
      targetIdToTargetDataMap = Map.empty,
      adapters = []\<rparr>"

text \<open>
  What a child's \<^verbatim>\<open>getTargets\<close> does when called: it throws before returning a promise,
  or its promise rejects, or resolves with an array, or resolves with something else.
\<close>

datatype 'a discovery = ThrowsSync | Rejects | ResolvesWith "'a list" | ResolvesOther

datatype event = Discover string meta

definition targetMetadata :: "meta \<Rightarrow> nat \<Rightarrow> meta" where
  "targetMetadata md index =
     (if truthy md
      then (case md of
              JArr xs \<Rightarrow> (if index < length xs then xs ! index else JUndefined)
            | _ \<Rightarrow> md)
      else JNull)"

definition safeGetTargets :: "'a discovery \<Rightarrow> 'a list option" where
  \<comment> \<open>The value of the promise after \<^verbatim>\<open>.catch\<close>: \<open>None\<close> is a value that is no array.\<close>
  "safeGetTargets d =
     (case d of
        ThrowsSync \<Rightarrow> Some []
      | Rejects \<Rightarrow> Some []
      | ResolvesWith ts \<Rightarrow> Some ts
      | ResolvesOther \<Rightarrow> None)"

fun forEach_adapter ::
  "('c \<Rightarrow> meta \<Rightarrow> itarget discovery \<times> 'c) \<Rightarrow> meta \<Rightarrow> (string \<times> 'c option) list \<Rightarrow> nat \<Rightarrow>
     itarget list option list \<times> (string \<times> 'c option) list \<times> event list" where
  \<comment> \<open>The first loop of \<^verbatim>\<open>getTargets\<close>: the promises pushed, the children after their
      calls, and the calls made, in order.\<close>
  "forEach_adapter gt md [] index = ([], [], [])"
| "forEach_adapter gt md ((adapterId, c) # rest) index =
     (case c of
        None \<Rightarrow>
          (case forEach_adapter gt md rest index of
             (promises, cs, calls) \<Rightarrow> (promises, (adapterId, None) # cs, calls))
      | Some adapter \<Rightarrow>
          (case gt adapter (targetMetadata md index) of
             (ThrowsSync, adapter') \<Rightarrow>
               (case forEach_adapter gt md rest index of
                  (promises, cs, calls) \<Rightarrow>
                    (promises, (adapterId, Some adapter') # cs,
                     Discover adapterId (targetMetadata md index) # calls))
           | (d, adapter') \<Rightarrow>
               (case forEach_adapter gt md rest (index + 1) of
                  (promises, cs, calls) \<Rightarrow>
                    (safeGetTargets d # promises, (adapterId, Some adapter') # cs,
                     Discover adapterId (targetMetadata md index) # calls))))"

definition concat_results :: "'a list option list \<Rightarrow> 'a list" where
  \<comment> \<open>The second loop: \<^verbatim>\<open>allTargets = allTargets.concat(targets)\<close> for each array.\<close>
  "concat_results results =
     foldl (\<lambda>allTargets targets.
              case targets of Some ts \<Rightarrow> allTargets @ ts | None \<Rightarrow> allTargets) [] results"

definition getTargets_collection ::
  "('c \<Rightarrow> meta \<Rightarrow> itarget discovery \<times> 'c) \<Rightarrow> meta \<Rightarrow> ('c, 'z) collection_scheme \<Rightarrow>
     itarget discovery \<times> ('c, 'z) collection_scheme \<times> event list" where
  "getTargets_collection gt md col =
     (case forEach_adapter gt md (adapters col) 0 of
        (promises, cs, calls) \<Rightarrow>
          (if promises = [] then ResolvesWith [] else ResolvesWith (concat_results promises),
           col\<lparr>adapters := cs\<rparr>, calls))"

definition getWebSocketId :: "string \<Rightarrow> (string \<times> string) option" where
  "getWebSocketId url =
     (if url = [] then None
      else case indexOf url (CHR ''/'') 1 of
        None \<Rightarrow> None
      | Some index \<Rightarrow>
          (let adapterId = substr url 0 (Some index);
               targetId = substr url (index + 1) None
           in if adapterId = [] \<or> targetId = [] then None
              else Some (adapterId, targetId)))"


section \<open>Device-discovery collection\<close>

text \<open>
  The three translator classes are not part of the sources at hand; a translator is the
  class chosen and the session it was constructed for. Whether a constructor throws is a
  parameter.
\<close>

datatype protocol_kind = IOS8Protocol | IOS9Protocol | IOS12Protocol

type_synonym protocol = "protocol_kind \<times> nat option"

record ios_adapter = "adapter collection" +
  protocolMap :: "nat \<rightharpoonup> protocol"

definition new_IOSAdapter ::
  "string \<Rightarrow> string \<Rightarrow> int \<Rightarrow> string \<Rightarrow> string list \<Rightarrow> ios_adapter" where
  \<comment> \<open>The constructor, from the proxy settings \<^verbatim>\<open>proxyPort\<close>, \<^verbatim>\<open>proxyPath\<close>, \<^verbatim>\<open>proxyArgs\<close>.\<close>
  "new_IOSAdapter i socket_url proxyPort proxyPath proxyArgs =
     \<lparr>adapter_id = i,
      adapter_type = adapterType_of i,
      proxyUrl = socket_url,
      port = (if proxyPort = 0 then 9222 else proxyPort),
      proxyExePath = Some proxyPath,
      proxyExeArgs = Some proxyArgs,
      proxyProc = None,
      targetMap = Map.empty,
      targetIdToTargetDataMap = Map.empty,
      adapters = [],
      protocolMap = Map.empty\<rparr>"

definition new_Protocol ::
  "(protocol_kind \<Rightarrow> bool) \<Rightarrow> protocol_kind \<Rightarrow> nat option \<Rightarrow> protocol option outcome" where
  "new_Protocol ctor_throws k target =
     (if ctor_throws k then Throws else Returns (Some (k, target)))"

definition getProtocolFor ::
  "(protocol_kind \<Rightarrow> bool) \<Rightarrow> string \<Rightarrow> nat option \<Rightarrow> protocol option outcome" where
  "getProtocolFor ctor_throws ver target =
     catch
       (if ver = [] then new_Protocol ctor_throws IOS9Protocol target
        else if target = None then Returns None
        else case split_on (CHR ''.'') ver of
          [] \<Rightarrow> new_Protocol ctor_throws IOS9Protocol target
        | majorStr # rest \<Rightarrow>
            (case parseInt majorStr of
               None \<Rightarrow> new_Protocol ctor_throws IOS9Protocol target
             | Some major \<Rightarrow>
                 if major \<le> 8 then new_Protocol ctor_throws IOS8Protocol target
                 else case rest of
                   [] \<Rightarrow> new_Protocol ctor_throws IOS9Protocol target
                 | minorStr # _ \<Rightarrow>
                     (case parseInt minorStr of
                        None \<Rightarrow> new_Protocol ctor_throws IOS9Protocol target
                      | Some minor \<Rightarrow>
                          if major > 12 \<or> (major \<ge> 12 \<and> minor \<ge> 2)
                          then new_Protocol ctor_throws IOS12Protocol target
                          else new_Protocol ctor_throws IOS9Protocol target)))
       (new_Protocol ctor_throws IOS9Protocol target)"





text \<open>
  An element of the device list the enumeration backend returned: a falsy value, a
  truthy primitive (the assignment to its \<^verbatim>\<open>version\<close> throws in strict mode), or a device
  object.
\<close>

datatype device_element = FalsyElement | PrimitiveElement | DeviceElement device

definition processDeviceVersions :: "device_element list \<Rightarrow> device list" where
  "processDeviceVersions devices =
     foldl (\<lambda>processedDevices e.
              case e of
                FalsyElement \<Rightarrow> processedDevices
              | PrimitiveElement \<Rightarrow> processedDevices
              | DeviceElement d \<Rightarrow>
                  processedDevices @
                    [if deviceId d = Some ''SIMULATOR'' then d\<lparr>version := Some ''9.3.0''\<rparr>
                     else if truthy_str (deviceOSVersion d) then d\<lparr>version := deviceOSVersion d\<rparr>
                     else d\<lparr>version := Some ''9.3.0''\<rparr>])
       [] devices"

definition device_adapter_request ::
  "('c, 'z) collection_scheme \<Rightarrow> device \<Rightarrow> (string \<times> int \<times> string) option" where
  \<comment> \<open>The body of the loop of \<^verbatim>\<open>createDeviceAdapters\<close>: the arguments of the call of
      \<^verbatim>\<open>createSingleDeviceAdapter\<close> it makes, if any.\<close>
  "device_adapter_request ios d =
     (case deviceId d of
        None \<Rightarrow> None
      | Some dev \<Rightarrow>
          if dev = [] then None
          else
            (let adapterId = adapter_id ios @ ''_'' @ dev
             in if map_of (adapters ios) adapterId \<noteq> None then None
                else case device_url d of
                  None \<Rightarrow> None
                | Some u \<Rightarrow>
                    if u = [] then None
                    else case split_on (CHR '':'') u of
                      [] \<Rightarrow> None
                    | [p] \<Rightarrow> None
                    | p # portStr # _ \<Rightarrow>
                        (case parseInt portStr of
                           None \<Rightarrow> None
                         | Some n \<Rightarrow> if n \<le> 0 then None else Some (adapterId, n, dev))))"

definition createSingleDeviceAdapter ::
  "spawn_result \<Rightarrow> (adapter, 'z) collection_scheme \<Rightarrow> string \<times> int \<times> string \<Rightarrow>
     (adapter, 'z) collection_scheme" where
  "createSingleDeviceAdapter os ios req =
     (case req of (adapterId, n, dev) \<Rightarrow>
        (case start os (new_Adapter adapterId (proxyUrl ios) (Some n) None None) of
           (Resolved r, a) \<Rightarrow> ios\<lparr>adapters := AList.update adapterId (Some a) (adapters ios)\<rparr>
         | (Rejected e, a) \<Rightarrow> ios))"

definition createDeviceAdapters ::
  "spawn_result \<Rightarrow> device list \<Rightarrow> (adapter, 'z) collection_scheme \<Rightarrow>
     (adapter, 'z) collection_scheme" where
  \<comment> \<open>Every call of \<^verbatim>\<open>createSingleDeviceAdapter\<close> is made by the loop, against the
      registry as it is before the loop; the registrations happen after the loop, once
      each \<^verbatim>\<open>await adapter.start()\<close> resumes, in the order of the calls.\<close>
  "createDeviceAdapters os devices ios =
     foldl (createSingleDeviceAdapter os) ios
       (List.map_filter (device_adapter_request ios) devices)"

section \<open>Notions of the specification\<close>

text \<open>
  The definitions of this section follow the words of the specification, not the code:
  they are what the operations above are compared with.
\<close>

definition malformed_response :: "'a json_parse \<Rightarrow> http_result \<Rightarrow> bool" where
  \<comment> \<open>A network error, no response, a status other than 200, an empty body, a body that
      is no JSON, or JSON that is no array; also a request that fails before or without
      any callback.\<close>
  "malformed_response parse net =
     (case net of
        RequestThrows \<Rightarrow> True
      | NoCallback \<Rightarrow> True
      | CalledBack late r \<Rightarrow>
          error r \<or> response r = None \<or> response r \<noteq> Some 200 \<or>
          body r = None \<or> body r = Some [] \<or>
          parse (or_else (body r) []) = None \<or> parse (or_else (body r) []) = Some NotArray)"

definition sessions_registered :: "('z adapter_scheme) \<times> heap \<Rightarrow> bool" where
  \<comment> \<open>The invariant of an adapter and the heap: every entry of the session registry
      refers to a session of the heap that was constructed for that target id, and the
      empty string is no key of the descriptor registry.\<close>
  "sessions_registered s =
     (case s of (a, h) \<Rightarrow>
        (\<forall>tid r. targetMap a tid = Some r \<longrightarrow> r < length h \<and> session_id (h ! r) = tid) \<and>
        targetIdToTargetDataMap a [] = None)"

definition contribution :: "'a discovery \<Rightarrow> 'a list" where
  \<comment> \<open>What a child contributes to the result of the collection: nothing when its
      discovery fails.\<close>
  "contribution d = (case d of ResolvesWith ts \<Rightarrow> ts | _ \<Rightarrow> [])"

primrec event_meta :: "event \<Rightarrow> meta" where
  "event_meta (Discover i m) = m"

primrec event_id :: "event \<Rightarrow> string" where
  "event_id (Discover i m) = i"

definition major_of :: "string \<Rightarrow> int option" where
  \<comment> \<open>The major version: the number the first dot-separated component starts with.\<close>
  "major_of ver = (case split_on (CHR ''.'') ver of [] \<Rightarrow> None | m # _ \<Rightarrow> parseInt m)"

definition minor_of :: "string \<Rightarrow> int option" where
  \<comment> \<open>The minor version: the number the second component starts with, if there is one.\<close>
  "minor_of ver = (case split_on (CHR ''.'') ver of m # n # _ \<Rightarrow> parseInt n | _ \<Rightarrow> None)"

definition selected_kind :: "int option \<Rightarrow> int option \<Rightarrow> protocol_kind" where
  "selected_kind major minor =
     (case major of
        None \<Rightarrow> IOS9Protocol
      | Some mj \<Rightarrow>
          if mj \<le> 8 then IOS8Protocol
          else case minor of
            None \<Rightarrow> IOS9Protocol
          | Some mn \<Rightarrow>
              if mj > 12 \<or> (mj = 12 \<and> mn \<ge> 2) then IOS12Protocol else IOS9Protocol)"



section \<open>Example inputs\<close>

definition example_target :: itarget where
  "example_target =
     \<lparr>id_t = Some ''T1'',
      webSocketDebuggerUrl = Some ''ws://localhost:9222/devtools/page/1'',
      adapterType = None,
      type_t = None,
      metadata = JUndefined,
      devtoolsFrontendUrl = None,
      description = None,
      faviconUrl = None,
      title = Some ''Page'',
      url_t = None\<rparr>"

definition example_device :: device where
  "example_device =
     \<lparr>deviceId = Some ''d1'',
      deviceOSVersion = Some ''12.2'',
      device_url = Some ''localhost:9222'',
      version = None\<rparr>"

definition example_leaf :: adapter where
  \<comment> \<open>A device adapter after one discovery that found \<open>example_target\<close>.\<close>
  "example_leaf =
     snd (setTargetInfo (Some example_target)
            (JObj (example_device\<lparr>version := Some ''12.2''\<rparr>))
            (new_Adapter ''/ios_d1'' ''ws://localhost:9000'' (Some 9222) None None))"




definition example_collection :: "itarget discovery collection" where
  \<comment> \<open>Three children, each given by the outcome of its discovery; the second one fails.\<close>
  "example_collection =
     (new_AdapterCollection ''/c'' ''ws://localhost:9000'' None None None)
       \<lparr>adapters :=
          [(''/c/a'', Some (ResolvesWith [example_target])),
           (''/c/b'', Some Rejects),
           (''/c/c'', Some (ResolvesWith [example_target\<lparr>id_t := Some ''T2''\<rparr>]))]\<rparr>"

section \<open>Auxiliary facts\<close>

lemma index_of_Some_iff:
  "index_of c xs = Some i \<longleftrightarrow> i < length xs \<and> xs ! i = c \<and> c \<notin> set (take i xs)"
proof (induction xs arbitrary: i)
  case Nil
  show ?case by simp
next
  case (Cons x xs)
  show ?case
  proof (cases i)
    case 0
    then show ?thesis by auto
  next
    case (Suc j)
    then show ?thesis using Cons.IH [of j] by auto
  qed
qed

lemma index_of_append:
  "c \<notin> set a \<Longrightarrow> index_of c (a @ c # t) = Some (length a)"
  by (induction a) auto

lemma index_of_split:
  "index_of c xs = Some i \<Longrightarrow> xs = take i xs @ c # drop (Suc i) xs \<and> c \<notin> set (take i xs)"
  using id_take_nth_drop [of i xs] by (auto simp: index_of_Some_iff)

lemma getWebSocketId_join:
  assumes "a \<noteq> []" "t \<noteq> []" "CHR ''/'' \<notin> set (tl a)"
  shows "getWebSocketId (a @ CHR ''/'' # t) = Some (a, t)"
proof -
  from assms obtain x xs where a: "a = x # xs" by (cases a) auto
  with assms have "index_of (CHR ''/'') (drop 1 (a @ CHR ''/'' # t)) = Some (length xs)"
    by (simp add: index_of_append)
  with assms a show ?thesis
    by (simp add: getWebSocketId_def indexOf_def substr_def Let_def)
qed

lemma split_on_not_Nil: "split_on c s \<noteq> []"
  by (induction s) (auto split: list.splits)

lemma parseInt_digits:
  "parseInt ''12'' = Some 12" "parseInt ''13'' = Some 13" "parseInt ''1'' = Some 1"
  "parseInt ''2'' = Some 2" "parseInt ''7'' = Some 7" "parseInt ''0'' = Some 0"
  "parseInt ''9222'' = Some 9222" "parseInt ''x'' = None"
  by (simp_all add: parseInt_def is_white_space_def is_digit_def digits_value_def digit_value_def
        to_double_def)

lemma updateClient_length: "length (updateClient t w h) = length h"
  by (simp add: updateClient_def)

lemma updateClient_session_id:
  "r < length h \<Longrightarrow> session_id (updateClient t w h ! r) = session_id (h ! r)"
  by (cases "r = t") (simp_all add: updateClient_def)

lemma sessions_registered_updateClient:
  "sessions_registered (a, h) \<Longrightarrow> sessions_registered (a, updateClient t w h)"
  by (simp add: sessions_registered_def updateClient_length updateClient_session_id)

lemma sessions_registered_new: "sessions_registered (new_Adapter i u p e args, [])"
  by (simp add: sessions_registered_def new_Adapter_def)

lemma setTargetInfo_registries:
  "targetMap (snd (setTargetInfo t md a)) = targetMap a"
  "targetIdToTargetDataMap (snd (setTargetInfo t md a)) [] = targetIdToTargetDataMap a []"
  by (simp_all add: setTargetInfo_def Let_def split: option.splits)

lemma forEach_target_registries:
  "targetMap (snd (forEach_target md ts (acc, a))) = targetMap a \<and>
   targetIdToTargetDataMap (snd (forEach_target md ts (acc, a))) [] = targetIdToTargetDataMap a []"
proof (induction ts arbitrary: acc a)
  case Nil
  show ?case by simp
next
  case (Cons t ts)
  show ?case
  proof (cases t)
    case None
    then show ?thesis by (simp add: Cons.IH)
  next
    case (Some t0)
    obtain r a' where st: "setTargetInfo (Some t0) md a = (r, a')"
      by (cases "setTargetInfo (Some t0) md a")
    then have "targetMap a' = targetMap a \<and>
        targetIdToTargetDataMap a' [] = targetIdToTargetDataMap a []"
      using setTargetInfo_registries [of "Some t0" md a] by simp
    with Some st show ?thesis by (simp add: Cons.IH)
  qed
qed

lemma getTargets_registries:
  "targetMap (snd (getTargets parse net md a)) = targetMap a \<and>
   targetIdToTargetDataMap (snd (getTargets parse net md a)) [] = targetIdToTargetDataMap a []"
proof (cases net)
  case (CalledBack late r)
  have "targetMap (snd (on_response parse md r a)) = targetMap a \<and>
      targetIdToTargetDataMap (snd (on_response parse md r a)) [] = targetIdToTargetDataMap a []"
    by (simp add: on_response_def forEach_target_registries split: option.splits parsed.splits)
  with CalledBack show ?thesis
    by (cases "on_response parse md r a") (simp add: getTargets_def)
qed (simp_all add: getTargets_def)

lemma getTargets_serializable:
  assumes "serializable md"
  shows "(\<exists>ts. fst (getTargets parse net md a) = Resolved ts) \<and>
         (malformed_response parse net \<longrightarrow> getTargets parse net md a = (Resolved [], a))"
proof
  show "\<exists>ts. fst (getTargets parse net md a) = Resolved ts"
    using assms by (cases net) (auto simp: getTargets_def split: prod.splits)
next
  show "malformed_response parse net \<longrightarrow> getTargets parse net md a = (Resolved [], a)"
  proof (cases net)
    case (CalledBack late r)
    with assms show ?thesis
      by (auto simp: malformed_response_def getTargets_def on_response_def truthy_str_def
               split: option.splits)
  qed (simp_all add: getTargets_def assms)
qed

lemma sessions_registered_getTargets:
  "sessions_registered (a, h) \<Longrightarrow> sessions_registered (snd (getTargets parse net md a), h)"
  by (simp add: sessions_registered_def getTargets_registries)

lemma connectTo_registered:
  assumes "sessions_registered (a, h)" and "connectTo f tid ws (a, h) = (r, a1, h1)"
  shows "sessions_registered (a1, h1)"
  using assms
  by (auto simp: connectTo_def new_Target_def sessions_registered_def updateClient_length
        updateClient_session_id nth_append less_Suc_eq
      split: if_splits option.splits)

lemma connectTo_Some:
  assumes "sessions_registered (a, h)" and "connectTo f tid ws (a, h) = (Some t, a1, h1)"
  shows "targetMap a1 tid = Some t \<and> tid \<noteq> [] \<and> targetIdToTargetDataMap a1 tid \<noteq> None
         \<and> t < length h1"
  using assms
  by (auto simp: connectTo_def new_Target_def sessions_registered_def updateClient_length
      split: if_splits option.splits)

lemma connectTo_again:
  assumes "sessions_registered (a, h)" and "connectTo f1 tid ws1 (a, h) = (Some t, a1, h1)"
  shows "connectTo f2 tid (Some w2) (a1, h1) = (Some t, a1, updateClient t w2 h1)"
  using connectTo_Some [OF assms] by (auto simp: connectTo_def)

lemma example_leaf_registry:
  "targetMap example_leaf = Map.empty"
  "targetIdToTargetDataMap example_leaf [] = None"
  "targetIdToTargetDataMap example_leaf ''T1'' =
     Some (example_target\<lparr>adapterType := Some ''_ios_d1'', type_t := Some ''page'',
             metadata := JObj (example_device\<lparr>version := Some ''12.2''\<rparr>)\<rparr>)"
  by (simp_all add: example_leaf_def example_target_def setTargetInfo_def Let_def
        truthy_str_def new_Adapter_def safeDeepCopy_def or_else_def adapterType_of_def
        indexOf_def substr_def)

section \<open>Backend adapter: connection reuse\<close>

text \<open>
  C1. On an adapter in a state that satisfies the invariant (every state reached from a
  new adapter by discoveries and connections does), for a target id present in the
  descriptor registry: a \<^verbatim>\<open>connectTo\<close> call with a client socket returns a session, a
  new one only if the id has none yet, and the next call for the same target id returns
  the identical session. That second call rebinds the client side of the session to the
  new socket, constructs no session (the heap keeps its length, whether or not a
  construction would succeed), leaves the registries of the adapter as they are, and
  the invariant, by which a target id has at most one session in the registry, still
  holds.
\<close>

theorem connectTo_twice:
  assumes "sessions_registered (a, h)"
    and "targetIdToTargetDataMap a tid \<noteq> None"
  shows "\<exists>t a1 h1.
           connectTo False tid (Some w1) (a, h) = (Some t, a1, h1) \<and>
           connectTo f2 tid (Some w2) (a1, h1) = (Some t, a1, updateClient t w2 h1) \<and>
           length (updateClient t w2 h1) = length h1 \<and>
           lookup_session (updateClient t w2 h1) t = Some ((h1 ! t)\<lparr>wsTools := w2\<rparr>) \<and>
           sessions_registered (a1, updateClient t w2 h1)"
proof -
  from assms have ne: "tid \<noteq> []"
    by (auto simp: sessions_registered_def)
  obtain r a1 h1 where first: "connectTo False tid (Some w1) (a, h) = (r, a1, h1)"
    by (cases "connectTo False tid (Some w1) (a, h)")
  have "fst (connectTo False tid (Some w1) (a, h)) \<noteq> None"
    using ne assms(2) by (cases "targetMap a tid") (auto simp: connectTo_def new_Target_def)
  with first obtain t where r: "r = Some t"
    by (cases r) auto
  note first = first [unfolded r]
  from connectTo_Some [OF assms(1) first] have lt: "t < length h1"
    by simp
  have reg: "sessions_registered (a1, h1)"
    by (rule connectTo_registered [OF assms(1) first])
  have "connectTo f2 tid (Some w2) (a1, h1) = (Some t, a1, updateClient t w2 h1)"
    by (rule connectTo_again [OF assms(1) first])
  moreover have "lookup_session (updateClient t w2 h1) t = Some ((h1 ! t)\<lparr>wsTools := w2\<rparr>)"
    using lt by (simp add: lookup_session_def updateClient_def)
  ultimately show ?thesis
    using reg first by (simp add: updateClient_length sessions_registered_updateClient)
qed

theorem connectTo_twice_witness:
  "fst (connectTo False ''T1'' (Some 5) (example_leaf, [])) = Some 0 \<and>
   fst (connectTo True ''T1'' (Some 6)
          (snd (connectTo False ''T1'' (Some 5) (example_leaf, [])))) = Some 0 \<and>
   length (snd (snd (connectTo True ''T1'' (Some 6)
          (snd (connectTo False ''T1'' (Some 5) (example_leaf, [])))))) = 1"
proof -
  have inv: "sessions_registered (example_leaf, [])"
    by (simp add: sessions_registered_def example_leaf_registry)
  have known: "targetIdToTargetDataMap example_leaf ''T1'' \<noteq> None"
    by (simp add: example_leaf_registry)
  have first: "fst (connectTo False ''T1'' (Some 5) (example_leaf, [])) = Some 0 \<and>
      length (snd (snd (connectTo False ''T1'' (Some 5) (example_leaf, [])))) = 1"
    by (simp add: connectTo_def example_leaf_registry new_Target_def)
  from connectTo_twice [OF inv known, of 5 True 6] first
  show ?thesis by auto
qed

section \<open>Collection: address decoding\<close>

text \<open>
  C2, as amended. Decoding succeeds exactly on the addresses \<open>a / t\<close> with \<open>a\<close> and \<open>t\<close>
  non-empty and no slash in \<open>a\<close> after its first character; the namespace id is \<open>a\<close>,
  the prefix of the address from offset 0 (its leading character included) up to the
  first slash found at offset 1 or later, and the target id is everything after that
  slash, further slashes included. On every other address decoding yields no match.
\<close>

theorem getWebSocketId_decodes:
  "getWebSocketId url = Some (a, t) \<longleftrightarrow>
     a \<noteq> [] \<and> t \<noteq> [] \<and> url = a @ CHR ''/'' # t \<and> CHR ''/'' \<notin> set (tl a)"
proof
  assume dec: "getWebSocketId url = Some (a, t)"
  then obtain i where i: "index_of (CHR ''/'') (drop 1 url) = Some i"
    and a: "a = take (i + 1) url" and t: "t = drop (i + 2) url"
    and ne: "url \<noteq> []" "t \<noteq> []"
    by (auto simp: getWebSocketId_def indexOf_def substr_def Let_def
             split: if_splits option.splits)
  from ne obtain x xs where url: "url = x # xs" by (cases url) auto
  from i url have "xs = take i xs @ CHR ''/'' # drop (Suc i) xs \<and> CHR ''/'' \<notin> set (take i xs)"
    using index_of_split [of "CHR ''/''" xs i] by simp
  then show "a \<noteq> [] \<and> t \<noteq> [] \<and> url = a @ CHR ''/'' # t \<and> CHR ''/'' \<notin> set (tl a)"
    using a t ne url by simp
next
  assume "a \<noteq> [] \<and> t \<noteq> [] \<and> url = a @ CHR ''/'' # t \<and> CHR ''/'' \<notin> set (tl a)"
  then show "getWebSocketId url = Some (a, t)"
    by (simp add: getWebSocketId_join)
qed

theorem getWebSocketId_decodes_witness:
  "getWebSocketId ''/A/B/C'' = Some (''/A'', ''B/C'')"
  using getWebSocketId_decodes [of "''/A/B/C''" "''/A''" "''B/C''"] by simp

text \<open>
  The address \<^verbatim>\<open>/A/B/C\<close> does not decode to the namespace id \<^verbatim>\<open>A\<close>: the leading slash
  is part of the namespace id.
\<close>

theorem getWebSocketId_offset_counterexample:
  "getWebSocketId ''/A/B/C'' = Some (''/A'', ''B/C'') \<and>
   getWebSocketId ''/A/B/C'' \<noteq> Some (''A'', ''B/C'')"
  by (simp add: getWebSocketId_def indexOf_def substr_def)

section \<open>Backend adapter: discovery\<close>

text \<open>
  C3 fails on the code. On a malformed discovery response the promise of \<^verbatim>\<open>getTargets\<close>
  of a backend adapter resolves with the empty list when the metadata is a value that
  \<^verbatim>\<open>JSON.stringify\<close> accepts (the lemma above), as the comments of the method say it
  shall ("Return empty array instead of rejecting"). With metadata that
  \<^verbatim>\<open>JSON.stringify\<close> throws on, the promise rejects, whatever the response is: the
  argument of the first \<^verbatim>\<open>debug\<close> call is evaluated outside every \<^verbatim>\<open>try\<close>.
\<close>

theorem getTargets_unserializable_rejects:
  assumes "\<not> serializable md"
  shows "getTargets parse net md a = (Rejected StringifyTypeError, a)"
  using assms by (simp add: getTargets_def)

theorem getTargets_unserializable_rejects_witness:
  "getTargets (\<lambda>b. None)
     (CalledBack False \<lparr>error = False, response = Some 404, body = Some ''[]''\<rparr>)
     JCyclic example_leaf = (Rejected StringifyTypeError, example_leaf) \<and>
   getTargets (\<lambda>b. None)
     (CalledBack False \<lparr>error = False, response = Some 404, body = Some ''[]''\<rparr>)
     (JArr [JNull, JCyclic]) example_leaf = (Rejected StringifyTypeError, example_leaf)"
proof -
  have u1: "\<not> serializable (JCyclic :: meta)" by simp
  have u2: "\<not> serializable (JArr [JNull, JCyclic] :: meta)" by simp
  show ?thesis
    by (simp only: getTargets_unserializable_rejects [OF u1]
          getTargets_unserializable_rejects [OF u2])
qed

section \<open>Device-discovery collection: translator selection\<close>

text \<open>
  C4, as amended. For a session, selection returns the legacy translator when the major
  version is at most 8; the newest translator when the major version is above 8, the
  version string has a second component that starts with a number (the minor version),
  and the major version is greater than 12, or is 12 with a minor version of at least 2;
  and the middle-generation translator in every other case, so also when the major
  version does not parse or when the version has no minor component. When the
  constructor of the selected translator throws, the middle-generation translator is
  constructed instead, and selection throws only if that fails as well.
\<close>

theorem getProtocolFor_selects:
  "getProtocolFor ctor_throws ver (Some t) =
     (let k = selected_kind (major_of ver) (minor_of ver)
      in if ctor_throws k
         then (if ctor_throws IOS9Protocol then Throws
               else Returns (Some (IOS9Protocol, Some t)))
         else Returns (Some (k, Some t)))"
proof (cases "ver = []")
  case True
  then show ?thesis
    by (simp add: getProtocolFor_def catch_def new_Protocol_def major_of_def minor_of_def
          selected_kind_def parseInt_def)
next
  case False
  obtain m rest where sp: "split_on (CHR ''.'') ver = m # rest"
    using split_on_not_Nil [of "CHR ''.''" ver] by (cases "split_on (CHR ''.'') ver") auto
  show ?thesis
    using False sp
    by (auto simp: getProtocolFor_def catch_def new_Protocol_def major_of_def minor_of_def
          selected_kind_def Let_def split: option.splits list.splits)
qed

theorem getProtocolFor_selects_witness:
  "getProtocolFor (\<lambda>k. False) ''12.2'' (Some 0) = Returns (Some (IOS12Protocol, Some 0)) \<and>
   getProtocolFor (\<lambda>k. False) ''7.0'' (Some 0) = Returns (Some (IOS8Protocol, Some 0)) \<and>
   getProtocolFor (\<lambda>k. False) ''x'' (Some 0) = Returns (Some (IOS9Protocol, Some 0)) \<and>
   getProtocolFor (\<lambda>k. k = IOS12Protocol) ''13.0'' (Some 0) = Returns (Some (IOS9Protocol, Some 0))"
  using getProtocolFor_selects [of "\<lambda>k. False" "''12.2''" 0]
        getProtocolFor_selects [of "\<lambda>k. False" "''7.0''" 0]
        getProtocolFor_selects [of "\<lambda>k. False" "''x''" 0]
        getProtocolFor_selects [of "\<lambda>k. k = IOS12Protocol" "''13.0''" 0]
  by (simp add: selected_kind_def major_of_def minor_of_def parseInt_digits)

text \<open>
  The versions \<^verbatim>\<open>12.1\<close> and \<^verbatim>\<open>13\<close> have a major version of at least 12, and the
  middle-generation translator is selected for both.
\<close>

theorem getProtocolFor_major_12_counterexample:
  "major_of ''12.1'' = Some 12 \<and>
   getProtocolFor (\<lambda>k. False) ''12.1'' (Some 0) = Returns (Some (IOS9Protocol, Some 0)) \<and>
   major_of ''13'' = Some 13 \<and>
   getProtocolFor (\<lambda>k. False) ''13'' (Some 0) = Returns (Some (IOS9Protocol, Some 0))"
  by (simp add: getProtocolFor_def catch_def new_Protocol_def major_of_def parseInt_digits)

section \<open>Collection: discovery\<close>

lemma concat_results_foldl:
  "foldl (\<lambda>allTargets targets.
              case targets of Some ts \<Rightarrow> allTargets @ ts | None \<Rightarrow> allTargets) acc results
   = acc @ concat (map (\<lambda>r. case r of Some ts \<Rightarrow> ts | None \<Rightarrow> []) results)"
  by (induction results arbitrary: acc) (auto split: option.splits)

lemma concat_results_eq:
  "concat_results results = concat (map (\<lambda>r. case r of Some ts \<Rightarrow> ts | None \<Rightarrow> []) results)"
  by (simp add: concat_results_def concat_results_foldl)

lemma contribution_safe:
  "(case safeGetTargets d of Some ts \<Rightarrow> ts | None \<Rightarrow> []) = contribution d"
  by (cases d) (simp_all add: safeGetTargets_def contribution_def)

lemma forEach_adapter_concat:
  "forEach_adapter gt md cs index = (promises, cs', calls) \<Longrightarrow>
   concat_results promises =
     concat (map (\<lambda>((i, a), e). contribution (fst (gt a (event_meta e))))
               (zip [(i, a). (i, Some a) \<leftarrow> cs] calls))"
proof (induction cs arbitrary: index promises cs' calls)
  case Nil
  then show ?case by (simp add: concat_results_eq)
next
  case (Cons ic rest)
  obtain i c where ic: "ic = (i, c)" by (cases ic)
  show ?case
  proof (cases c)
    case None
    with Cons.prems ic obtain cs0 where
      "forEach_adapter gt md rest index = (promises, cs0, calls)"
      by (auto split: prod.splits)
    from Cons.IH [OF this] None ic show ?thesis by simp
  next
    case (Some a)
    obtain d a' where g: "gt a (targetMetadata md index) = (d, a')"
      by (cases "gt a (targetMetadata md index)")
    show ?thesis
    proof (cases "d = ThrowsSync")
      case True
      with Cons.prems ic Some g obtain cs0 calls0 where
        r: "forEach_adapter gt md rest index = (promises, cs0, calls0)"
        and c: "calls = Discover i (targetMetadata md index) # calls0"
        by (auto split: prod.splits)
      from Cons.IH [OF r] c ic Some g True show ?thesis
        by (simp add: contribution_def)
    next
      case False
      with Cons.prems ic Some g obtain ps0 cs0 calls0 where
        r: "forEach_adapter gt md rest (index + 1) = (ps0, cs0, calls0)"
        and c: "calls = Discover i (targetMetadata md index) # calls0"
        and p: "promises = safeGetTargets d # ps0"
        by (cases d) (auto split: prod.splits)
      from Cons.IH [OF r] c p ic Some g show ?thesis
        by (simp add: concat_results_eq contribution_safe)
    qed
  qed
qed

lemma forEach_adapter_ids:
  "forEach_adapter gt md cs index = (promises, cs', calls) \<Longrightarrow>
   map event_id calls = map fst [(i, a). (i, Some a) \<leftarrow> cs]"
proof (induction cs arbitrary: index promises cs' calls)
  case Nil
  then show ?case by simp
next
  case (Cons ic rest)
  obtain i c where ic: "ic = (i, c)" by (cases ic)
  show ?case
  proof (cases c)
    case None
    with Cons.prems ic obtain cs0 where
      "forEach_adapter gt md rest index = (promises, cs0, calls)"
      by (auto split: prod.splits)
    from Cons.IH [OF this] None ic show ?thesis by simp
  next
    case (Some a)
    obtain d a' where g: "gt a (targetMetadata md index) = (d, a')"
      by (cases "gt a (targetMetadata md index)")
    obtain ps0 cs0 calls0 k where
      r: "forEach_adapter gt md rest k = (ps0, cs0, calls0)"
      and c: "calls = Discover i (targetMetadata md index) # calls0"
      using Cons.prems ic Some g by (cases d) (auto split: prod.splits)
    from Cons.IH [OF r] c ic Some show ?thesis by simp
  qed
qed

lemma forEach_adapter_calls:
  assumes "\<forall>(i, c) \<in> set cs. \<exists>a. c = Some a \<and> (\<forall>m. fst (gt a m) \<noteq> ThrowsSync)"
  shows "snd (snd (forEach_adapter gt md cs index)) =
           map (\<lambda>(k, (i, c)). Discover i (targetMetadata md k)) (enumerate index cs)"
  using assms
proof (induction cs arbitrary: index)
  case Nil
  show ?case by simp
next
  case (Cons ic rest)
  obtain i c where ic: "ic = (i, c)" by (cases ic)
  from Cons.prems ic obtain a where a: "c = Some a" and nt: "\<forall>m. fst (gt a m) \<noteq> ThrowsSync"
    by auto
  obtain d a' where g: "gt a (targetMetadata md index) = (d, a')"
    by (cases "gt a (targetMetadata md index)")
  from nt g have d: "d \<noteq> ThrowsSync" by (metis fst_conv)
  from Cons.prems have "\<forall>(i, c) \<in> set rest. \<exists>a. c = Some a \<and> (\<forall>m. fst (gt a m) \<noteq> ThrowsSync)"
    by simp
  from Cons.IH [OF this, of "Suc index"] ic a g d show ?case
    by (cases d) (auto split: prod.splits)
qed

lemma example_collection_calls:
  "forEach_adapter (\<lambda>c m. (c, c)) md (adapters example_collection) 0 =
     ([Some [example_target], Some [], Some [example_target\<lparr>id_t := Some ''T2''\<rparr>]],
      adapters example_collection,
      [Discover ''/c/a'' (targetMetadata md 0), Discover ''/c/b'' (targetMetadata md 1),
       Discover ''/c/c'' (targetMetadata md 2)])"
  by (simp add: example_collection_def new_AdapterCollection_def safeGetTargets_def
        numeral_2_eq_2)

text \<open>
  C5. The promise of \<^verbatim>\<open>getTargets\<close> of a collection always resolves, with the
  concatenation, in the iteration order of the child registry, of the contributions of
  its children, where the contribution of a child is the array its discovery resolves
  with for the metadata it was called with, and is empty when its discovery throws,
  rejects or resolves with something else. Every child of the registry is called once,
  in that order.
\<close>

theorem getTargets_collection_concat:
  assumes "getTargets_collection gt md col = (r, col', calls)"
  shows "r = ResolvesWith
           (concat (map (\<lambda>((i, a), e). contribution (fst (gt a (event_meta e))))
                      (zip [(i, a). (i, Some a) \<leftarrow> adapters col] calls))) \<and>
         map event_id calls = map fst [(i, a). (i, Some a) \<leftarrow> adapters col]"
proof -
  obtain promises cs where f: "forEach_adapter gt md (adapters col) 0 = (promises, cs, calls)"
    and r: "r = (if promises = [] then ResolvesWith [] else ResolvesWith (concat_results promises))"
    using assms by (auto simp: getTargets_collection_def split: prod.splits)
  have "r = ResolvesWith (concat_results promises)"
    using r by (cases promises) (simp_all add: concat_results_def)
  with forEach_adapter_concat [OF f] forEach_adapter_ids [OF f] show ?thesis by simp
qed

theorem getTargets_collection_concat_witness:
  "fst (getTargets_collection (\<lambda>c m. (c, c)) JNull example_collection) =
     ResolvesWith [example_target, example_target\<lparr>id_t := Some ''T2''\<rparr>]"
proof -
  have run: "getTargets_collection (\<lambda>c m. (c, c)) JNull example_collection =
      (fst (getTargets_collection (\<lambda>c m. (c, c)) JNull example_collection),
       example_collection\<lparr>adapters := adapters example_collection\<rparr>,
       [Discover ''/c/a'' JNull, Discover ''/c/b'' JNull, Discover ''/c/c'' JNull])"
    by (simp add: getTargets_collection_def example_collection_calls targetMetadata_def)
  from getTargets_collection_concat [OF run]
  show ?thesis
    by (simp add: example_collection_def new_AdapterCollection_def contribution_def)
qed

section \<open>Device-discovery collection: protocol binding\<close>

















section \<open>Backend adapter: the managed process\<close>

text \<open>
  C7. On an adapter that holds a process handle, \<^verbatim>\<open>spawnProcess\<close> rejects with the
  error "process already started" and leaves the adapter, and so the handle, as it is;
  after \<^verbatim>\<open>stop\<close> has cleared the handle, a spawn with a path starts a process again.
\<close>

theorem spawnProcess_already_started:
  assumes "proxyProc a = Some p"
  shows "spawnProcess path args os a = (Rejected AlreadyStarted, a) \<and>
         proxyProc (snd (spawnProcess path args os a)) = Some p \<and>
         fst (spawnProcess (Some (x # xs)) args (Spawned q None) (stop False a)) = Resolved q"
  using assms by (simp add: spawnProcess_def stop_def truthy_str_def)

theorem spawnProcess_already_started_witness:
  "proxyProc (snd (spawnProcess (Some ''proxy'') None (Spawned 7 None) example_leaf)) = Some 7 \<and>
   fst (spawnProcess (Some ''proxy'') None (Spawned 8 None)
          (snd (spawnProcess (Some ''proxy'') None (Spawned 7 None) example_leaf))) =
     Rejected AlreadyStarted \<and>
   proxyProc (snd (spawnProcess (Some ''proxy'') None (Spawned 8 None)
          (snd (spawnProcess (Some ''proxy'') None (Spawned 7 None) example_leaf)))) = Some 7"
proof -
  have first: "proxyProc (snd (spawnProcess (Some ''proxy'') None (Spawned 7 None) example_leaf)) =
      Some 7"
    by (simp add: spawnProcess_def truthy_str_def example_leaf_def setTargetInfo_def Let_def
          example_target_def new_Adapter_def)
  from spawnProcess_already_started [OF first, of "Some ''proxy''" None "Spawned 8 None"] first
  show ?thesis by simp
qed

section \<open>Device-discovery collection: version normalization\<close>

lemma foldl_process_devices:
  "foldl (\<lambda>processedDevices e.
              case e of
                FalsyElement \<Rightarrow> processedDevices
              | PrimitiveElement \<Rightarrow> processedDevices
              | DeviceElement d \<Rightarrow>
                  processedDevices @
                    [if deviceId d = Some ''SIMULATOR'' then d\<lparr>version := Some ''9.3.0''\<rparr>
                     else if truthy_str (deviceOSVersion d) then d\<lparr>version := deviceOSVersion d\<rparr>
                     else d\<lparr>version := Some ''9.3.0''\<rparr>]) acc ds
   = acc @ map (\<lambda>d. d\<lparr>version :=
                  (if deviceId d = Some ''SIMULATOR'' \<or> \<not> truthy_str (deviceOSVersion d)
                   then Some ''9.3.0'' else deviceOSVersion d)\<rparr>)
        [d. DeviceElement d \<leftarrow> ds]"
proof (induction ds arbitrary: acc)
  case Nil
  show ?case by simp
next
  case (Cons e es)
  show ?case by (cases e) (simp_all add: Cons.IH)
qed

text \<open>
  C8. \<^verbatim>\<open>processDeviceVersions\<close> returns the device objects of the list, in order, each
  with its version set: to the fixed fallback \<^verbatim>\<open>9.3.0\<close> when the device id is
  \<^verbatim>\<open>SIMULATOR\<close>, whatever version is reported; otherwise to the reported
  \<^verbatim>\<open>deviceOSVersion\<close> when there is a non-empty one; otherwise to the same fallback. The
  other properties of a device are left as they are, and an element that is no device
  object is skipped while the rest of the list is processed.
\<close>

theorem processDeviceVersions_normalizes:
  "processDeviceVersions ds =
     map (\<lambda>d. d\<lparr>version :=
                  (if deviceId d = Some ''SIMULATOR'' \<or> \<not> truthy_str (deviceOSVersion d)
                   then Some ''9.3.0'' else deviceOSVersion d)\<rparr>)
        [d. DeviceElement d \<leftarrow> ds]"
  unfolding processDeviceVersions_def by (simp add: foldl_process_devices)

theorem processDeviceVersions_normalizes_witness:
  "processDeviceVersions
     [DeviceElement (example_device\<lparr>deviceId := Some ''SIMULATOR''\<rparr>),
      FalsyElement,
      DeviceElement example_device,
      PrimitiveElement,
      DeviceElement (example_device\<lparr>deviceOSVersion := None\<rparr>)] =
     [example_device\<lparr>deviceId := Some ''SIMULATOR'', version := Some ''9.3.0''\<rparr>,
      example_device\<lparr>version := Some ''12.2''\<rparr>,
      example_device\<lparr>deviceOSVersion := None, version := Some ''9.3.0''\<rparr>]"
  using processDeviceVersions_normalizes
    [of "[DeviceElement (example_device\<lparr>deviceId := Some ''SIMULATOR''\<rparr>),
          FalsyElement,
          DeviceElement example_device,
          PrimitiveElement,
          DeviceElement (example_device\<lparr>deviceOSVersion := None\<rparr>)]"]
  by (simp add: example_device_def truthy_str_def)

section \<open>Collection: the metadata given to the children\<close>

text \<open>
  C9, as amended. A \<^verbatim>\<open>getTargets\<close> call on a collection makes no discovery of the
  collection's own; on a registry whose entries are adapters with a discovery that
  returns a promise, it calls the discovery of every child once, in the iteration order
  of the registry. When the caller supplies an array of metadata, the Nth child receives
  the Nth entry (\<^verbatim>\<open>undefined\<close> beyond the end of the array); when the caller supplies any
  other truthy value, every child receives that value; otherwise every child receives
  \<^verbatim>\<open>null\<close>.
\<close>

theorem getTargets_collection_metadata:
  assumes "\<forall>(i, c) \<in> set (adapters col). \<exists>a. c = Some a \<and> (\<forall>m. fst (gt a m) \<noteq> ThrowsSync)"
  shows "snd (snd (getTargets_collection gt md col)) =
           map (\<lambda>(k, (i, c)). Discover i (targetMetadata md k)) (enumerate 0 (adapters col)) \<and>
         (\<forall>xs k. md = JArr xs \<and> k < length xs \<longrightarrow> targetMetadata md k = xs ! k) \<and>
         (\<forall>xs k. md = JArr xs \<and> length xs \<le> k \<longrightarrow> targetMetadata md k = JUndefined) \<and>
         (\<forall>k. truthy md \<and> (\<forall>xs. md \<noteq> JArr xs) \<longrightarrow> targetMetadata md k = md) \<and>
         (\<forall>k. \<not> truthy md \<longrightarrow> targetMetadata md k = JNull)"
proof -
  have "snd (snd (getTargets_collection gt md col)) =
          snd (snd (forEach_adapter gt md (adapters col) 0))"
    by (simp add: getTargets_collection_def split: prod.splits)
  moreover have "\<forall>k. truthy md \<and> (\<forall>xs. md \<noteq> JArr xs) \<longrightarrow> targetMetadata md k = md"
    by (cases md) (simp_all add: targetMetadata_def)
  ultimately show ?thesis
    using forEach_adapter_calls [OF assms, of md 0]
    by (auto simp: targetMetadata_def)
qed

theorem getTargets_collection_metadata_witness:
  "snd (snd (getTargets_collection (\<lambda>c m. (c, c)) (JArr [JStr ''m0'', JStr ''m1''])
               example_collection)) =
     [Discover ''/c/a'' (JStr ''m0''), Discover ''/c/b'' (JStr ''m1''),
      Discover ''/c/c'' JUndefined]"
proof -
  have valid: "\<forall>(i, c) \<in> set (adapters example_collection).
                 \<exists>a. c = Some a \<and> (\<forall>m. fst ((\<lambda>c m. (c, c)) a m) \<noteq> ThrowsSync)"
    by (simp add: example_collection_def new_AdapterCollection_def)
  from getTargets_collection_metadata [OF valid, of "JArr [JStr ''m0'', JStr ''m1'']"]
  show ?thesis
    by (simp add: example_collection_def new_AdapterCollection_def enumerate_eq_zip
          upt_rec numeral_2_eq_2)
qed

text \<open>
  The calls a \<^verbatim>\<open>getTargets\<close> call makes on the collection \<^verbatim>\<open>/c\<close> with three children:
  one discovery for each child, none for the collection itself.
\<close>

theorem getTargets_collection_own_counterexample:
  "adapter_id example_collection = ''/c'' \<and>
   snd (snd (getTargets_collection (\<lambda>c m. (c, c)) (JStr ''m'') example_collection)) =
     [Discover ''/c/a'' (JStr ''m''), Discover ''/c/b'' (JStr ''m''),
      Discover ''/c/c'' (JStr ''m'')]"
  by (simp add: getTargets_collection_def example_collection_calls targetMetadata_def)
     (simp add: example_collection_def new_AdapterCollection_def)

section \<open>Device-discovery collection: the namespace of a device\<close>

lemma createSingleDeviceAdapter_fields:
  "adapter_id (createSingleDeviceAdapter os ios req) = adapter_id ios"
  "proxyUrl (createSingleDeviceAdapter os ios req) = proxyUrl ios"
  by (auto simp: createSingleDeviceAdapter_def split: prod.splits promise.splits)

lemma createSingleDeviceAdapter_registry:
  "map_of (adapters (createSingleDeviceAdapter os ios (k, n, dev))) =
     (map_of (adapters ios))(k \<mapsto> Some (new_Adapter k (proxyUrl ios) (Some n) None None))"
  by (simp add: createSingleDeviceAdapter_def start_def new_Adapter_def truthy_str_def
        update_conv')

lemma foldl_createSingleDeviceAdapter:
  assumes "map_of (adapters (foldl (createSingleDeviceAdapter os) ios reqs)) k = Some c"
  shows "map_of (adapters ios) k = Some c \<or>
         (\<exists>n dev. (k, n, dev) \<in> set reqs \<and>
            c = Some (new_Adapter k (proxyUrl ios) (Some n) None None))"
  using assms
proof (induction reqs arbitrary: ios)
  case Nil
  then show ?case by simp
next
  case (Cons req reqs)
  obtain k' n' dev' where req: "req = (k', n', dev')" by (cases req)
  from Cons.prems have
    "map_of (adapters (foldl (createSingleDeviceAdapter os)
        (createSingleDeviceAdapter os ios req) reqs)) k = Some c"
    by simp
  from Cons.IH [OF this]
  show ?case
    by (auto simp: req createSingleDeviceAdapter_registry createSingleDeviceAdapter_fields
        split: if_splits)
qed

lemma device_adapter_request_Some:
  assumes "device_adapter_request ios d = Some (k, n, dev)"
  shows "deviceId d = Some dev \<and> dev \<noteq> [] \<and> k = adapter_id ios @ ''_'' @ dev"
  using assms
  by (auto simp: device_adapter_request_def Let_def split: option.splits if_splits list.splits)

lemma example_device_request:
  "device_adapter_request
     (new_IOSAdapter ''/ios'' ''ws://localhost:9000'' 9221 ''ios_webkit_debug_proxy'' [])
     (example_device\<lparr>deviceId := Some dev\<rparr>) =
   (if dev = [] then None else Some (''/ios_'' @ dev, 9222, dev))"
  by (simp add: device_adapter_request_def new_IOSAdapter_def example_device_def parseInt_digits)

lemma example_device_adapters:
  "dev \<noteq> [] \<Longrightarrow>
   adapters (createDeviceAdapters os [example_device\<lparr>deviceId := Some dev\<rparr>]
     (new_IOSAdapter ''/ios'' ''ws://localhost:9000'' 9221 ''ios_webkit_debug_proxy'' [])) =
   [(''/ios_'' @ dev, Some (new_Adapter (''/ios_'' @ dev) ''ws://localhost:9000'' (Some 9222) None None))]"
  by (simp add: createDeviceAdapters_def map_filter_def example_device_request
        createSingleDeviceAdapter_def start_def truthy_str_def)
     (simp add: new_IOSAdapter_def new_Adapter_def)

text \<open>
  C10, as amended. Every child that \<^verbatim>\<open>createDeviceAdapters\<close> adds to the child registry
  is registered under the collection's own id, an underscore and the device id of one of
  the devices, and that key is also the child's own id. When neither the collection's id
  after its first character nor the device id contains a slash, an inbound address made
  of that key, a slash and a non-empty target id decodes in one step to the key and the
  target id.
\<close>

theorem createDeviceAdapters_namespace:
  assumes "map_of (adapters (createDeviceAdapters os devices ios)) k = Some c"
    and "map_of (adapters ios) k = None"
  shows "\<exists>d \<in> set devices. \<exists>dev a. deviceId d = Some dev \<and> k = adapter_id ios @ ''_'' @ dev \<and>
            c = Some a \<and> adapter_id a = k \<and>
            (CHR ''/'' \<notin> set (tl (adapter_id ios)) \<and> CHR ''/'' \<notin> set dev \<longrightarrow>
               (\<forall>t. t \<noteq> [] \<longrightarrow> getWebSocketId (k @ CHR ''/'' # t) = Some (k, t)))"
proof -
  from foldl_createSingleDeviceAdapter [OF assms(1) [unfolded createDeviceAdapters_def]] assms(2)
  obtain n dev where
    mem: "(k, n, dev) \<in> set (List.map_filter (device_adapter_request ios) devices)"
    and c: "c = Some (new_Adapter k (proxyUrl ios) (Some n) None None)"
    by auto
  from mem obtain d where d: "d \<in> set devices"
    and rq: "device_adapter_request ios d = Some (k, n, dev)"
    by (auto simp: map_filter_def split: option.splits)
  from device_adapter_request_Some [OF rq]
  have dv: "deviceId d = Some dev" and ne: "dev \<noteq> []" and k: "k = adapter_id ios @ ''_'' @ dev"
    by simp_all
  have dec: "CHR ''/'' \<notin> set (tl (adapter_id ios)) \<and> CHR ''/'' \<notin> set dev \<longrightarrow>
               (\<forall>t. t \<noteq> [] \<longrightarrow> getWebSocketId (k @ CHR ''/'' # t) = Some (k, t))"
  proof (intro impI allI)
    fix t :: string
    assume sl: "CHR ''/'' \<notin> set (tl (adapter_id ios)) \<and> CHR ''/'' \<notin> set dev" and t: "t \<noteq> []"
    have "CHR ''/'' \<notin> set (tl k)"
      using sl k by (cases "adapter_id ios") auto
    moreover have "k \<noteq> []" using k by simp
    ultimately show "getWebSocketId (k @ CHR ''/'' # t) = Some (k, t)"
      using t by (simp add: getWebSocketId_join)
  qed
  show ?thesis
    using d dv k c dec by (auto simp: new_Adapter_def)
qed

theorem createDeviceAdapters_namespace_witness:
  "map fst (adapters (createDeviceAdapters SpawnThrows [example_device]
     (new_IOSAdapter ''/ios'' ''ws://localhost:9000'' 9221 ''ios_webkit_debug_proxy'' []))) =
     [''/ios_d1''] \<and>
   getWebSocketId ''/ios_d1/T1'' = Some (''/ios_d1'', ''T1'')"
proof -
  let ?ios = "new_IOSAdapter ''/ios'' ''ws://localhost:9000'' 9221 ''ios_webkit_debug_proxy'' []"
  have reg: "adapters (createDeviceAdapters SpawnThrows [example_device] ?ios) =
      [(''/ios_d1'', Some (new_Adapter ''/ios_d1'' ''ws://localhost:9000'' (Some 9222) None None))]"
    using example_device_adapters [of "''d1''" SpawnThrows] by (simp add: example_device_def)
  have new: "map_of (adapters (createDeviceAdapters SpawnThrows [example_device] ?ios)) ''/ios_d1'' =
      Some (Some (new_Adapter ''/ios_d1'' ''ws://localhost:9000'' (Some 9222) None None))"
    by (simp add: reg)
  have old: "map_of (adapters ?ios) ''/ios_d1'' = None"
    by (simp add: new_IOSAdapter_def)
  from createDeviceAdapters_namespace [OF new old]
  have "getWebSocketId (''/ios_d1'' @ CHR ''/'' # ''T1'') = Some (''/ios_d1'', ''T1'')"
    by (auto simp: example_device_def new_IOSAdapter_def)
  then show ?thesis by (simp add: reg)
qed

text \<open>
  A device whose id contains a slash: its child is registered under \<^verbatim>\<open>/ios_a/b\<close>, and
  the first piece decoded from an address of one of its targets is \<^verbatim>\<open>/ios_a\<close>, which is
  not that key.
\<close>

theorem createDeviceAdapters_slash_counterexample:
  "map fst (adapters (createDeviceAdapters SpawnThrows [example_device\<lparr>deviceId := Some ''a/b''\<rparr>]
     (new_IOSAdapter ''/ios'' ''ws://localhost:9000'' 9221 ''ios_webkit_debug_proxy'' []))) =
     [''/ios_a/b''] \<and>
   getWebSocketId ''/ios_a/b/T1'' = Some (''/ios_a'', ''b/T1'')"
  using example_device_adapters [of "''a/b''" SpawnThrows]
  by (simp add: getWebSocketId_def indexOf_def substr_def)

end
